theory Spec2Isabelle
  imports Complex_Main "HOL-Library.Signed_Division"
begin

section \<open>Data model of LSDRasterModel\<close>

text \<open>
  The landscape-evolution model keeps its grids as \<^verbatim>\<open>Array2D<float>\<close>. A grid is
  modelled as a total function from a row and a column index to a value; the extent of
  a grid is carried by the members \<open>NRows\<close> and \<open>NCols\<close>, as in the class, and every loop
  of the source runs over exactly the indices the source visits. The C type \<^verbatim>\<open>float\<close> is
  idealised as \<^typ>\<open>real\<close>: the theorems below are statements about the arithmetic the
  code writes down, without rounding. The C type \<^verbatim>\<open>int\<close> is \<^typ>\<open>int\<close>.
\<close>

type_synonym array2d = "int \<Rightarrow> int \<Rightarrow> real"

definition put2 :: "array2d \<Rightarrow> int \<Rightarrow> int \<Rightarrow> real \<Rightarrow> array2d" where
  "put2 a i j v = a(i := (a i)(j := v))"

text \<open>
  The members of \<^verbatim>\<open>LSDRasterModel\<close> (and of its base \<^verbatim>\<open>LSDRaster\<close>) that the functions
  below read or write. The exponents \<^verbatim>\<open>m\<close> and \<^verbatim>\<open>n\<close> of the stream power law are the
  fields \<open>SPL_m\<close> and \<open>SPL_n\<close>.
\<close>

record LSDRasterModel =
  NRows :: int
  NCols :: int
  DataResolution :: real
  NoDataValue :: real
  RasterData :: array2d
  boundary_conditions :: "string list"
  current_time :: real
  time_delay :: real
  timeStep :: real
  endTime :: real
  endTime_mode :: int
  periodicity :: real
  uplift_mode :: int
  max_uplift :: real
  steady_state_tolerance :: real
  steady_state_limit :: real
  SPL_m :: real
  SPL_n :: real
  S_c :: real
  root_depth :: array2d
  erosion_cycle_record :: "real list"
  zeta_old :: array2d
  zeta_last_iter :: array2d
  zeta_last_timestep :: array2d
  zeta_this_iter :: array2d
  steady_state :: bool
  initial_steady_state :: bool
  cycle_steady_check :: bool
  hillslope :: bool
  nonlinear :: bool
  fluvial :: bool

text \<open>
  \<^verbatim>\<open>for (int i=0; i<NRows; ++i) for (int j=0; j<NCols; ++j) body(i, j)\<close>: the nested
  loop over all cells, rows outermost. The bounds are read once; no body below changes
  them.
\<close>

definition for_cells :: "int \<Rightarrow> int \<Rightarrow> (int \<Rightarrow> int \<Rightarrow> 's \<Rightarrow> 's) \<Rightarrow> 's \<Rightarrow> 's" where
  "for_cells nr nc body = fold (\<lambda>i. fold (\<lambda>j. body i j) [0..nc - 1]) [0..nr - 1]"

text \<open>
  A loop over all cells that leaves the function at the first cell satisfying a test:
  whether the early \<^verbatim>\<open>return\<close> is taken.
\<close>

definition any_cell :: "int \<Rightarrow> int \<Rightarrow> (int \<Rightarrow> int \<Rightarrow> bool) \<Rightarrow> bool" where
  "any_cell nr nc test = list_ex (\<lambda>i. list_ex (\<lambda>j. test i j) [0..nc - 1]) [0..nr - 1]"


section \<open>Boundary policy\<close>


section \<open>Steady state and hung runs\<close>

text \<open>The tail of \<^verbatim>\<open>check_steady_state\<close>, reached when no test failed: the first arrival
  at steady state records the time and, in end-time modes 1 and 3, moves the end time.\<close>

definition first_steady_state :: "LSDRasterModel \<Rightarrow> LSDRasterModel" where
  "first_steady_state m =
     (if \<not> initial_steady_state m then
        (let m1 = m\<lparr>initial_steady_state := True\<rparr>;
             m2 = m1\<lparr>time_delay := current_time m1\<rparr>
         in if endTime_mode m2 = 1 \<or> endTime_mode m2 = 3
            then m2\<lparr>endTime := endTime m2 + time_delay m2\<rparr> else m2)
      else m)"

definition check_steady_state :: "LSDRasterModel \<Rightarrow> LSDRasterModel" where
  "check_steady_state m0 =
     (let m = m0\<lparr>steady_state := True\<rparr> in
      if cycle_steady_check m then
        (if list_ex (\<lambda>i. erosion_cycle_record m ! i = - 99
                        \<or> \<bar>erosion_cycle_record m ! i - erosion_cycle_record m ! (i + 1)\<bar>
                             > steady_state_tolerance m) [0..<4]
         then m\<lparr>steady_state := False\<rparr>
         else first_steady_state m)
      else if steady_state_limit m < 0 \<or> current_time m < steady_state_limit m then
        (if any_cell (NRows m) (NCols m)
              (\<lambda>i j. \<bar>RasterData m i j - zeta_old m i j\<bar> > steady_state_tolerance m)
         then m\<lparr>steady_state := False\<rparr>
         else first_steady_state m)
      else first_steady_state m)"

text \<open>
  \<^verbatim>\<open>check_if_hung\<close> computes \<^verbatim>\<open>num_cycles\<close> and then executes \<^verbatim>\<open>return false;\<close>. The
  \<^verbatim>\<open>switch\<close> on the end-time mode that follows that statement is never reached; it is
  kept here under its own name, \<open>check_if_hung_switch\<close>, to show what it would compute.
  The conversion of the quotient to \<^verbatim>\<open>int\<close> truncates towards zero.
\<close>

definition c_trunc :: "real \<Rightarrow> int" where
  "c_trunc x = (if 0 \<le> x then \<lfloor>x\<rfloor> else \<lceil>x\<rceil>)"

definition check_if_hung_switch :: "LSDRasterModel \<Rightarrow> int \<Rightarrow> bool" where
  "check_if_hung_switch m num_cycles =
     (if endTime_mode m = 1 then
        (if \<not> initial_steady_state m \<and> current_time m > endTime m * 100 then True else False)
      else if endTime_mode m = 2 then
        (if \<not> initial_steady_state m \<and> real_of_int num_cycles > endTime m * 100 then True else False)
      else if endTime_mode m = 3 then
        (if \<not> initial_steady_state m \<and> current_time m > endTime m * 100 then True else False)
      else False)"

definition check_if_hung :: "LSDRasterModel \<Rightarrow> bool" where
  "check_if_hung m = (let num_cycles = c_trunc (current_time m / periodicity m) in False)"

section \<open>Airy isostasy\<close>

definition rho_c :: real where "rho_c = 2650"
definition rho_m :: real where "rho_m = 3300"

definition zeta_root :: real where
  "zeta_root = (rho_m - rho_c) / rho_c"

text \<open>The body of the loop of \<^verbatim>\<open>Airy_isostasy\<close> at cell \<open>(i, j)\<close>: the new elevation is
  computed from the root depth that has just been stored.\<close>

definition Airy_cell :: "int \<Rightarrow> int \<Rightarrow> LSDRasterModel \<Rightarrow> LSDRasterModel" where
  "Airy_cell i j m =
     (let load = RasterData m i j + root_depth m i j;
          m1 = m\<lparr>root_depth := put2 (root_depth m) i j (load / (1 + zeta_root))\<rparr>
      in m1\<lparr>RasterData := put2 (RasterData m1) i j (load - root_depth m1 i j)\<rparr>)"

definition Airy_isostasy :: "LSDRasterModel \<Rightarrow> LSDRasterModel" where
  "Airy_isostasy m = for_cells (NRows m) (NCols m) Airy_cell m"

section \<open>Uplift\<close>




section \<open>Hillslope diffusion\<close>






















section \<open>Fluvial incision\<close>

text \<open>
  Modelled from the spec: \<^verbatim>\<open>LSDFlowInfo\<close> is declared in \<^verbatim>\<open>LSDFlowInfo.hpp\<close>, which is
  not among the sources. The flow network gives, for the current elevations, a visiting
  order of the nodes (\<open>SVector\<close>), the row and the column of a node, the receiver of a
  node, the number of pixels that drain through a node, and a code for the distance to
  the receiver (\<open>1\<close> along an axis, \<open>2\<close> along a diagonal). The receiver's row and column
  are the row and column of the receiver node.
\<close>

record LSDFlowInfo =
  SVector :: "int list"
  RowIndex :: "int \<Rightarrow> int"
  ColIndex :: "int \<Rightarrow> int"
  ReceiverVector :: "int \<Rightarrow> int"
  NContributingNodes :: "int \<Rightarrow> int"
  FlowLengthCode :: "int \<Rightarrow> int"


definition flow_dx :: "(real \<Rightarrow> real \<Rightarrow> real) \<Rightarrow> LSDRasterModel \<Rightarrow> LSDFlowInfo \<Rightarrow> int \<Rightarrow> real" where
  "flow_dx pw m flow node =
     (let root_2 = pw 2 0.5;
          code = FlowLengthCode flow node
      in if code = 0 then - 99
         else if code = 1 then DataResolution m
         else if code = 2 then DataResolution m * root_2
         else - 99)"

definition drainageArea :: "LSDRasterModel \<Rightarrow> LSDFlowInfo \<Rightarrow> int \<Rightarrow> real" where
  "drainageArea m flow node =
     real_of_int (NContributingNodes flow node) * DataResolution m * DataResolution m"

text \<open>
  One pass of the \<^verbatim>\<open>do\<close> loop of the branch for \<open>n \<noteq> 1\<close>: the correction \<open>epsilon\<close>. The
  loop repeats while \<^verbatim>\<open>abs(epsilon > 0.001)\<close>, the absolute value of the truth value of
  the comparison. The loop has no counter.
\<close>

definition newton_epsilon ::
  "(real \<Rightarrow> real \<Rightarrow> real) \<Rightarrow> real \<Rightarrow> real \<Rightarrow> real \<Rightarrow> real \<Rightarrow> real \<Rightarrow> real \<Rightarrow> real" where
  "newton_epsilon pw streamPowerFactor n dx zeta_receiver old_zeta new_zeta =
     (let slope = (new_zeta - zeta_receiver) / dx
      in (new_zeta - old_zeta + streamPowerFactor * pw slope n) /
         (1 + streamPowerFactor * (n / dx) * pw slope (n - 1)))"

partial_function (option) newton_loop ::
  "(real \<Rightarrow> real \<Rightarrow> real) \<Rightarrow> real \<Rightarrow> real \<Rightarrow> real \<Rightarrow> real \<Rightarrow> real \<Rightarrow> real \<Rightarrow> real option" where
  "newton_loop pw streamPowerFactor n dx zeta_receiver old_zeta new_zeta =
     (if \<bar>if newton_epsilon pw streamPowerFactor n dx zeta_receiver old_zeta new_zeta > 0.001
          then 1 else (0::int)\<bar> \<noteq> 0
      then newton_loop pw streamPowerFactor n dx zeta_receiver old_zeta
             (new_zeta - newton_epsilon pw streamPowerFactor n dx zeta_receiver old_zeta new_zeta)
      else Some (new_zeta - newton_epsilon pw streamPowerFactor n dx zeta_receiver old_zeta new_zeta))"

text \<open>
  Single precision. A value stored in a \<^verbatim>\<open>float\<close> variable is rounded to the nearest
  number whose significand has 24 bits, ties to the even significand; below the exponent
  \<open>-126\<close> the spacing stays \<open>2 ^ -149\<close>. Values beyond the largest \<^verbatim>\<open>float\<close> are outside
  this model of rounding.
\<close>

definition pow2 :: "int \<Rightarrow> real" where
  "pow2 e = (if 0 \<le> e then 2 ^ nat e else 1 / 2 ^ nat (- e))"

definition round_half_even :: "real \<Rightarrow> int" where
  "round_half_even y =
     (if y - real_of_int \<lfloor>y\<rfloor> < 1 / 2 then \<lfloor>y\<rfloor>
      else if y - real_of_int \<lfloor>y\<rfloor> > 1 / 2 then \<lfloor>y\<rfloor> + 1
      else if even \<lfloor>y\<rfloor> then \<lfloor>y\<rfloor> else \<lfloor>y\<rfloor> + 1)"

definition float_exponent :: "real \<Rightarrow> int" where
  "float_exponent x = max \<lfloor>log 2 \<bar>x\<bar>\<rfloor> (- 126)"

definition to_float :: "real \<Rightarrow> real" where
  "to_float x =
     (if x = 0 then 0
      else real_of_int (round_half_even (x / pow2 (float_exponent x - 23)))
           * pow2 (float_exponent x - 23))"

text \<open>
  The same loop with the stores of the source made explicit: \<^verbatim>\<open>slope\<close>, \<^verbatim>\<open>epsilon\<close> and
  \<^verbatim>\<open>new_zeta\<close> are \<^verbatim>\<open>float\<close> variables, and \<open>store\<close> is applied to each value assigned to
  them. The expressions between two stores are evaluated exactly. With the identity for
  \<open>store\<close> this is \<open>newton_loop\<close>; with \<open>to_float\<close> it is the loop on single-precision
  variables.
\<close>

definition newton_epsilon_float ::
  "(real \<Rightarrow> real) \<Rightarrow> (real \<Rightarrow> real \<Rightarrow> real) \<Rightarrow> real \<Rightarrow> real \<Rightarrow> real \<Rightarrow> real \<Rightarrow> real \<Rightarrow> real \<Rightarrow> real" where
  "newton_epsilon_float store pw streamPowerFactor n dx zeta_receiver old_zeta new_zeta =
     (let slope = store ((new_zeta - zeta_receiver) / dx)
      in store ((new_zeta - old_zeta + streamPowerFactor * pw slope n) /
                (1 + streamPowerFactor * (n / dx) * pw slope (n - 1))))"

partial_function (option) newton_loop_float ::
  "(real \<Rightarrow> real) \<Rightarrow> (real \<Rightarrow> real \<Rightarrow> real) \<Rightarrow> real \<Rightarrow> real \<Rightarrow> real \<Rightarrow> real \<Rightarrow> real \<Rightarrow> real \<Rightarrow> real option" where
  "newton_loop_float store pw streamPowerFactor n dx zeta_receiver old_zeta new_zeta =
     (if \<bar>if newton_epsilon_float store pw streamPowerFactor n dx zeta_receiver old_zeta new_zeta
             > 0.001
          then 1 else (0::int)\<bar> \<noteq> 0
      then newton_loop_float store pw streamPowerFactor n dx zeta_receiver old_zeta
             (store (new_zeta
                - newton_epsilon_float store pw streamPowerFactor n dx zeta_receiver old_zeta new_zeta))
      else Some (store (new_zeta
                - newton_epsilon_float store pw streamPowerFactor n dx zeta_receiver old_zeta new_zeta)))"

text \<open>
  The body of the loop over the nodes; \<open>slope_exponent_is_one\<close> is the test
  \<^verbatim>\<open>abs(n - 1) < 0.0001\<close> that selects the branch. \<open>K\<close> is the value of \<^verbatim>\<open>get_K()\<close>. In the branch
  for \<open>n \<noteq> 1\<close> the value \<^verbatim>\<open>new_zeta\<close> that the iteration ends with is a local of the
  branch; no statement stores it in \<^verbatim>\<open>zeta\<close>.
\<close>

definition slope_exponent_is_one :: "LSDRasterModel \<Rightarrow> bool" where
  "slope_exponent_is_one m = (\<bar>SPL_n m - 1\<bar> < 0.0001)"

definition fluvial_node ::
  "(real \<Rightarrow> real \<Rightarrow> real) \<Rightarrow> real \<Rightarrow> LSDFlowInfo \<Rightarrow> LSDRasterModel \<Rightarrow> int \<Rightarrow> array2d \<Rightarrow> array2d option" where
  "fluvial_node pw K flow m node zeta =
     (let row = RowIndex flow node;
          col = ColIndex flow node;
          receiver = ReceiverVector flow node;
          receiver_row = RowIndex flow receiver;
          receiver_col = ColIndex flow receiver;
          dx = flow_dx pw m flow node
      in if slope_exponent_is_one m then
           (if dx = - 99 then Some zeta
            else if node \<noteq> receiver then
              (let streamPowerFactor =
                     K * pw (drainageArea m flow node) (SPL_m m) * (timeStep m / dx)
               in Some (put2 zeta row col
                          ((zeta row col + zeta receiver_row receiver_col * streamPowerFactor) /
                           (1 + streamPowerFactor))))
            else Some zeta)
         else
           (if dx = - 99 then Some zeta
            else
              (let new_zeta = zeta row col;
                   old_zeta = zeta row col;
                   streamPowerFactor = K * pw (drainageArea m flow node) (SPL_m m) * timeStep m
               in case newton_loop pw streamPowerFactor (SPL_n m) dx
                         (zeta receiver_row receiver_col) old_zeta new_zeta of
                    None \<Rightarrow> None
                  | Some new_zeta' \<Rightarrow> Some zeta)))"

fun fluvial_loop ::
  "(real \<Rightarrow> real \<Rightarrow> real) \<Rightarrow> real \<Rightarrow> LSDFlowInfo \<Rightarrow> LSDRasterModel \<Rightarrow> int list \<Rightarrow> array2d \<Rightarrow> array2d option" where
  "fluvial_loop pw K flow m [] zeta = Some zeta"
| "fluvial_loop pw K flow m (node # nodeList) zeta =
     (case fluvial_node pw K flow m node zeta of
        None \<Rightarrow> None
      | Some zeta' \<Rightarrow> fluvial_loop pw K flow m nodeList zeta')"

definition fluvial_incision ::
  "(real \<Rightarrow> real \<Rightarrow> real) \<Rightarrow> real \<Rightarrow> LSDFlowInfo \<Rightarrow> LSDRasterModel \<Rightarrow> LSDRasterModel option" where
  "fluvial_incision pw K flow m =
     (case fluvial_loop pw K flow m (SVector flow) (RasterData m) of
        None \<Rightarrow> None
      | Some zeta \<Rightarrow> Some (m\<lparr>RasterData := zeta\<rparr>))"

section \<open>The adaptive-timestep creep solver\<close>

text \<open>
  \<^verbatim>\<open>DAVE_initiate_assembler_matrix\<close> computes the constants of the assembly from the
  current \<open>timeStep\<close>: the two inverse terms and the two front terms. \<open>D_nl\<close> is the value
  of \<^verbatim>\<open>get_D()\<close>.
\<close>

type_synonym assembler_terms = "real \<times> real \<times> real \<times> real"

definition DAVE_initiate_assembler_matrix :: "real \<Rightarrow> LSDRasterModel \<Rightarrow> assembler_terms" where
  "DAVE_initiate_assembler_matrix D_nl m =
     (let dx = DataResolution m;
          dy = DataResolution m;
          inv_dx_S_c_squared = 1 / (dx * dx * S_c m * S_c m);
          inv_dy_S_c_squared = 1 / (dy * dy * S_c m * S_c m);
          dx_front_term = timeStep m * D_nl / (dx * dx);
          dy_front_term = timeStep m * D_nl / (dy * dy)
      in (inv_dx_S_c_squared, inv_dy_S_c_squared, dx_front_term, dy_front_term))"

text \<open>
  \<^verbatim>\<open>DAVE_solve_assembler_matrix\<close> assembles the system from \<open>zeta_last_iter\<close>,
  \<open>zeta_last_timestep\<close>, \<open>timeStep\<close> and the constants of the assembly, and solves it with
  \<^verbatim>\<open>bicgstab\<close>; the solution becomes \<open>zeta_this_iter\<close>. Assembly and solution together
  are a parameter.
\<close>

type_synonym dave_solver = "LSDRasterModel \<Rightarrow> assembler_terms \<Rightarrow> array2d"

definition DAVE_max_residual :: "LSDRasterModel \<Rightarrow> real" where
  "DAVE_max_residual m =
     for_cells (NRows m) (NCols m)
       (\<lambda>row col max_residual.
          (let residual = sqrt ((zeta_this_iter m row col - zeta_last_iter m row col)
                                * (zeta_this_iter m row col - zeta_last_iter m row col))
           in if residual > max_residual then residual else max_residual)) 0"

definition DAVE_iteration :: "dave_solver \<Rightarrow> assembler_terms \<Rightarrow> LSDRasterModel \<Rightarrow> LSDRasterModel \<times> real" where
  "DAVE_iteration solve terms m =
     (let m1 = m\<lparr>zeta_this_iter := solve m terms\<rparr>;
          max_residual = DAVE_max_residual m1
      in (m1\<lparr>zeta_last_iter := zeta_this_iter m1\<rparr>, max_residual))"

text \<open>The inner loop, with \<^verbatim>\<open>max_iterations = 10\<close>: the state is the model, the largest
  residual of the last pass and the number of passes.\<close>

function DAVE_inner_loop ::
  "dave_solver \<Rightarrow> assembler_terms \<Rightarrow> real \<Rightarrow> LSDRasterModel \<Rightarrow> real \<Rightarrow> int \<Rightarrow> LSDRasterModel \<times> real \<times> int" where
  "DAVE_inner_loop solve terms iteration_tolerance m max_residual n_iterations =
     (if max_residual > iteration_tolerance \<and> n_iterations \<le> 10 then
        DAVE_inner_loop solve terms iteration_tolerance
          (fst (DAVE_iteration solve terms m)) (snd (DAVE_iteration solve terms m))
          (n_iterations + 1)
      else (m, max_residual, n_iterations))"
  by pat_completeness auto
termination
  by (relation "measure (\<lambda>(solve, terms, tol, m, r, n). nat (11 - n))") auto

declare DAVE_inner_loop.simps [simp del]

text \<open>
  The outer loop runs until \<^verbatim>\<open>continue_switch\<close> is set. Each pass takes the snapshots
  from \<open>RasterData\<close>, which no pass writes, and starts the inner loop with
  \<^verbatim>\<open>n_iterations = 0\<close> and the residual the previous pass ended with.
\<close>

definition DAVE_slow_down :: "LSDRasterModel \<Rightarrow> LSDRasterModel" where
  "DAVE_slow_down m =
     (let dt_new = timeStep m / 10;
          m1 = m\<lparr>zeta_last_iter := RasterData m\<rparr>
      in m1\<lparr>timeStep := dt_new\<rparr>)"

definition DAVE_speed_up :: "LSDRasterModel \<Rightarrow> LSDRasterModel" where
  "DAVE_speed_up m = (let dt_new = timeStep m * 2 in m\<lparr>timeStep := dt_new\<rparr>)"

definition DAVE_snapshot :: "LSDRasterModel \<Rightarrow> LSDRasterModel" where
  "DAVE_snapshot m = m\<lparr>zeta_last_iter := RasterData m, zeta_last_timestep := RasterData m\<rparr>"

partial_function (option) DAVE_outer_loop ::
  "dave_solver \<Rightarrow> real \<Rightarrow> real \<Rightarrow> assembler_terms \<Rightarrow> LSDRasterModel \<Rightarrow> real \<Rightarrow> LSDRasterModel option" where
  "DAVE_outer_loop solve D_nl iteration_tolerance terms m max_residual =
     (case DAVE_inner_loop solve terms iteration_tolerance (DAVE_snapshot m) max_residual 0 of
        (m1, max_residual1, n_iterations) \<Rightarrow>
          if n_iterations = 1 then Some (DAVE_speed_up m1)
          else if n_iterations \<ge> 10 then
            DAVE_outer_loop solve D_nl iteration_tolerance
              (DAVE_initiate_assembler_matrix D_nl (DAVE_slow_down m1))
              (DAVE_slow_down m1) max_residual1
          else Some m1)"

definition DAVE_nonlinear_creep_timestep ::
  "dave_solver \<Rightarrow> real \<Rightarrow> real \<Rightarrow> assembler_terms \<Rightarrow> LSDRasterModel \<Rightarrow> LSDRasterModel option" where
  "DAVE_nonlinear_creep_timestep solve D_nl iteration_tolerance terms m =
     (let dt_old = timeStep m;
          max_residual = iteration_tolerance + 1
      in case DAVE_outer_loop solve D_nl iteration_tolerance terms m max_residual of
           None \<Rightarrow> None
         | Some m1 \<Rightarrow> Some (m1\<lparr>RasterData := zeta_this_iter m1, timeStep := dt_old\<rparr>))"

definition DAVE_wrapper :: "dave_solver \<Rightarrow> real \<Rightarrow> LSDRasterModel \<Rightarrow> LSDRasterModel option" where
  "DAVE_wrapper solve D_nl m =
     (let iteration_tolerance = 0.00001
      in DAVE_nonlinear_creep_timestep solve D_nl iteration_tolerance
           (DAVE_initiate_assembler_matrix D_nl m) m)"

section \<open>The flow network's contract\<close>

text \<open>
  The flow network visits every receiver before its donors: the receiver of the node at
  position \<open>k\<close> of the order is the node itself (a base-level node) or stands at an
  earlier position.
\<close>

definition receivers_first :: "LSDFlowInfo \<Rightarrow> bool" where
  "receivers_first flow =
     (\<forall>k < length (SVector flow).
        ReceiverVector flow (SVector flow ! k) = SVector flow ! k
        \<or> ReceiverVector flow (SVector flow ! k) \<in> set (take k (SVector flow)))"

text \<open>A node is visited once, and different nodes are different cells of the grid.\<close>

definition one_cell_per_node :: "LSDFlowInfo \<Rightarrow> bool" where
  "one_cell_per_node flow =
     (distinct (SVector flow)
      \<and> inj_on (\<lambda>node. (RowIndex flow node, ColIndex flow node))
           (set (SVector flow) \<union> ReceiverVector flow ` set (SVector flow)))"

text \<open>The factor \<open>F = K * A^m * dt / dx\<close> of a node, as the branch for \<open>n = 1\<close> computes it.\<close>

definition stream_power_factor ::
  "(real \<Rightarrow> real \<Rightarrow> real) \<Rightarrow> real \<Rightarrow> LSDFlowInfo \<Rightarrow> LSDRasterModel \<Rightarrow> int \<Rightarrow> real" where
  "stream_power_factor pw K flow m node =
     K * pw (drainageArea m flow node) (SPL_m m) * (timeStep m / flow_dx pw m flow node)"



section \<open>Example grids\<close>

text \<open>The values of \<^verbatim>\<open>default_parameters\<close> on a grid of three rows and three columns of
  elevation zero, with cells of size one. The critical slope is the value \<open>30\<close> read from a
  parameter file; \<^verbatim>\<open>default_parameters\<close> itself stores the tangent of thirty degrees.\<close>

definition small_default_model :: LSDRasterModel where
  "small_default_model =
     \<lparr>NRows = 3, NCols = 3, DataResolution = 1, NoDataValue = - 99,
      RasterData = (\<lambda>i j. 0),
      boundary_conditions = [''b'', ''p'', ''b'', ''p''],
      current_time = 0, time_delay = 0, timeStep = 100, endTime = 10000, endTime_mode = 0,
      periodicity = 10000, uplift_mode = 0, max_uplift = 0.0005,
      steady_state_tolerance = 0.0001, steady_state_limit = - 1,
      SPL_m = 0.5, SPL_n = 1, S_c = 30,
      root_depth = (\<lambda>i j. 0), erosion_cycle_record = [],
      zeta_old = (\<lambda>i j. 0), zeta_last_iter = (\<lambda>i j. 0),
      zeta_last_timestep = (\<lambda>i j. 0), zeta_this_iter = (\<lambda>i j. 0),
      steady_state = False, initial_steady_state = False, cycle_steady_check = False,
      hillslope = True, nonlinear = False, fluvial = True\<rparr>"

text \<open>A run in end-time mode 1 that has not reached steady state at two hundred times
  its end time.\<close>

definition hung_model :: LSDRasterModel where
  "hung_model = small_default_model\<lparr>endTime_mode := 1, endTime := 10, current_time := 2000\<rparr>"

text \<open>Two grids whose elevation equals the snapshot of the previous step: one checks
  steady state over forcing cycles and has no cycle on record, one has a negative
  tolerance.\<close>

definition cycle_check_model :: LSDRasterModel where
  "cycle_check_model =
     small_default_model\<lparr>cycle_steady_check := True,
                          erosion_cycle_record := [- 99, - 99, - 99, - 99, - 99]\<rparr>"

definition negative_tolerance_model :: LSDRasterModel where
  "negative_tolerance_model = small_default_model\<lparr>steady_state_tolerance := - 1\<rparr>"

text \<open>A grid of three rows and one column that rises to the south, its northern edge at
  fixed elevation, and its flow network: node \<open>i\<close> is the cell of row \<open>i\<close> and drains to
  the cell north of it.\<close>

definition column_model :: LSDRasterModel where
  "column_model =
     small_default_model\<lparr>NCols := 1, RasterData := (\<lambda>i j. real_of_int i),
       boundary_conditions := [''b'', ''p'', ''n'', ''p''], timeStep := 1, SPL_m := 1\<rparr>"

definition column_flow :: LSDFlowInfo where
  "column_flow =
     \<lparr>SVector = [0, 1, 2],
      RowIndex = (\<lambda>node. node),
      ColIndex = (\<lambda>node. 0),
      ReceiverVector = (\<lambda>node. if node = 0 then 0 else node - 1),
      NContributingNodes = (\<lambda>node. 3 - node),
      FlowLengthCode = (\<lambda>node. if node = 0 then 0 else 1)\<rparr>"

text \<open>The same grid with slope exponent \<open>n = 2\<close>.\<close>

definition quadratic_model :: LSDRasterModel where
  "quadratic_model = column_model\<lparr>SPL_n := 2\<rparr>"





text \<open>An assembly and solution whose result is the previous iterate: the elevations are
  already a solution of the system.\<close>

definition still_solver :: dave_solver where
  "still_solver m terms = zeta_last_iter m"

section \<open>Loops over cells\<close>

lemma put2_same [simp]: "put2 a i j v i j = v"
  by (simp add: put2_def)

lemma put2_other [simp]: "(r, c) \<noteq> (i, j) \<Longrightarrow> put2 a i j v r c = a r c"
  by (auto simp add: put2_def)

lemma put2_id [simp]: "put2 a i j (a i j) = a"
  by (simp add: put2_def)

lemma fold_invariant:
  assumes "\<And>x s. x \<in> set xs \<Longrightarrow> P s \<Longrightarrow> P (f x s)" and "P s"
  shows "P (fold f xs s)"
  using assms by (induction xs arbitrary: s) auto

lemma for_cells_invariant:
  assumes step: "\<And>i j s. 0 \<le> i \<Longrightarrow> i < nr \<Longrightarrow> 0 \<le> j \<Longrightarrow> j < nc \<Longrightarrow> P s \<Longrightarrow> P (body i j s)"
    and init: "P s"
  shows "P (for_cells nr nc body s)"
  unfolding for_cells_def
proof (rule fold_invariant [where P = P])
  fix i s assume i: "i \<in> set [0..nr - 1]" and s: "P s"
  show "P (fold (\<lambda>j. body i j) [0..nc - 1] s)"
  proof (rule fold_invariant [where P = P])
    fix j t assume "j \<in> set [0..nc - 1]" and "P t"
    with i show "P (body i j t)" by (intro step) auto
  qed (rule s)
qed (rule init)

section \<open>Airy isostasy conserves the load\<close>

lemma Airy_cell_total:
  "RasterData (Airy_cell i j m) r c + root_depth (Airy_cell i j m) r c
     = RasterData m r c + root_depth m r c"
  by (cases "(r, c) = (i, j)") (auto simp add: Airy_cell_def Let_def)

lemma Airy_cell_dims [simp]:
  "NRows (Airy_cell i j m) = NRows m" "NCols (Airy_cell i j m) = NCols m"
  by (simp_all add: Airy_cell_def Let_def)

lemma Airy_isostasy_total:
  "RasterData (Airy_isostasy m) r c + root_depth (Airy_isostasy m) r c
     = RasterData m r c + root_depth m r c"
  unfolding Airy_isostasy_def
  by (rule for_cells_invariant
        [where P = "\<lambda>s. RasterData s r c + root_depth s r c = RasterData m r c + root_depth m r c"])
     (simp_all add: Airy_cell_total)

lemma Airy_isostasy_dims:
  "NRows (Airy_isostasy m) = NRows m \<and> NCols (Airy_isostasy m) = NCols m"
  unfolding Airy_isostasy_def
  by (rule for_cells_invariant [where P = "\<lambda>s. NRows s = NRows m \<and> NCols s = NCols m"])
     simp_all

text \<open>
  C10. A single application of \<open>Airy_isostasy\<close> conserves, at every cell, the sum of
  elevation and root depth: the sum after the call equals the sum before it. The
  statement holds for every pair of indices, so for base-level cells and for cells that
  hold the no-data value as well (the function tests neither).
\<close>

theorem Airy_isostasy_conserves_load:
  "RasterData (Airy_isostasy m) i j + root_depth (Airy_isostasy m) i j
     = RasterData m i j + root_depth m i j"
  by (rule Airy_isostasy_total)

text \<open>
  C8. Applying \<open>Airy_isostasy\<close> twice in succession leaves, at every cell, the same total
  of elevation and root depth as applying it once.
\<close>

theorem Airy_isostasy_twice_total:
  "RasterData (Airy_isostasy (Airy_isostasy m)) i j
       + root_depth (Airy_isostasy (Airy_isostasy m)) i j
     = RasterData (Airy_isostasy m) i j + root_depth (Airy_isostasy m) i j"
  by (rule Airy_isostasy_total)
section \<open>Steady state and hung runs: properties\<close>

lemma check_if_hung_False: "check_if_hung m = False"
  by (simp add: check_if_hung_def)

text \<open>
  C4 fails on the code. The run \<open>hung_model\<close> has not reached its initial steady state and
  its time exceeds one hundred times its end time; the unreachable \<^verbatim>\<open>switch\<close> would answer
  true, and \<open>check_if_hung\<close> answers false, so the step loop of \<^verbatim>\<open>run_components\<close> does
  not leave at its test.
\<close>

theorem check_if_hung_at_hung_model:
  "\<not> initial_steady_state hung_model
   \<and> current_time hung_model > 100 * endTime hung_model
   \<and> check_if_hung_switch hung_model (c_trunc (current_time hung_model / periodicity hung_model))
   \<and> \<not> check_if_hung hung_model"
  by (simp add: hung_model_def small_default_model_def check_if_hung_def check_if_hung_switch_def)

lemma any_cell_iff:
  "any_cell nr nc test \<longleftrightarrow> (\<exists>i j. 0 \<le> i \<and> i < nr \<and> 0 \<le> j \<and> j < nc \<and> test i j)"
  unfolding any_cell_def list_ex_iff by (simp add: Bex_def)

lemma steady_state_first_steady_state [simp]:
  "steady_state (first_steady_state m) = steady_state m"
  by (simp add: first_steady_state_def Let_def)

text \<open>
  C5, amended. When steady state is not checked over forcing cycles and the tolerance
  is not negative, a grid whose elevation equals the snapshot of the previous step at
  every cell of the grid has the steady-state flag set by \<open>check_steady_state\<close>.
\<close>

theorem check_steady_state_equal_fields:
  assumes "\<not> cycle_steady_check m" and "0 \<le> steady_state_tolerance m"
    and "\<forall>i j. 0 \<le> i \<and> i < NRows m \<and> 0 \<le> j \<and> j < NCols m \<longrightarrow> RasterData m i j = zeta_old m i j"
  shows "steady_state (check_steady_state m)"
  using assms by (auto simp add: check_steady_state_def Let_def any_cell_iff)

theorem check_steady_state_equal_fields_witness:
  "\<not> cycle_steady_check small_default_model \<and> 0 \<le> steady_state_tolerance small_default_model
   \<and> (\<forall>i j. RasterData small_default_model i j = zeta_old small_default_model i j)
   \<and> steady_state (check_steady_state small_default_model)"
  using check_steady_state_equal_fields [of small_default_model]
  by (simp add: small_default_model_def)

text \<open>
  C5 as stated fails: with the check over forcing cycles switched on and no cycle on
  record, and with a negative tolerance, the flag is cleared although the elevation
  equals the snapshot everywhere.
\<close>

theorem check_steady_state_counterexample:
  "RasterData cycle_check_model = zeta_old cycle_check_model
   \<and> \<not> steady_state (check_steady_state cycle_check_model)
   \<and> RasterData negative_tolerance_model = zeta_old negative_tolerance_model
   \<and> \<not> steady_state (check_steady_state negative_tolerance_model)"
  by (simp add: cycle_check_model_def negative_tolerance_model_def small_default_model_def
        check_steady_state_def Let_def any_cell_def upto.simps upt_conv_Cons)

section \<open>Fluvial incision: the branch for slope exponent one\<close>

lemma fluvial_node_linear:
  assumes "slope_exponent_is_one m"
  shows "fluvial_node pw K flow m node zeta =
           Some (if flow_dx pw m flow node = - 99 \<or> node = ReceiverVector flow node then zeta
                 else put2 zeta (RowIndex flow node) (ColIndex flow node)
                        ((zeta (RowIndex flow node) (ColIndex flow node)
                          + zeta (RowIndex flow (ReceiverVector flow node))
                                 (ColIndex flow (ReceiverVector flow node))
                            * (K * pw (drainageArea m flow node) (SPL_m m)
                                 * (timeStep m / flow_dx pw m flow node)))
                         / (1 + K * pw (drainageArea m flow node) (SPL_m m)
                                  * (timeStep m / flow_dx pw m flow node))))"
  using assms by (simp add: fluvial_node_def Let_def)

lemma fluvial_node_nonlinear:
  assumes "\<not> slope_exponent_is_one m" and "fluvial_node pw K flow m node zeta = Some zeta'"
  shows "zeta' = zeta"
  using assms by (auto simp add: fluvial_node_def Let_def split: if_splits option.splits)

lemma fluvial_node_other_cell:
  assumes "fluvial_node pw K flow m node zeta = Some zeta'"
    and "(r, c) \<noteq> (RowIndex flow node, ColIndex flow node)
         \<or> ReceiverVector flow node = node \<or> flow_dx pw m flow node = - 99"
  shows "zeta' r c = zeta r c"
proof (cases "slope_exponent_is_one m")
  case True
  with assms show ?thesis by (auto simp add: fluvial_node_linear)
next
  case False
  from fluvial_node_nonlinear [OF False assms(1)] show ?thesis by simp
qed

lemma fluvial_loop_other_cell:
  assumes "fluvial_loop pw K flow m nodes zeta = Some zeta'"
    and "\<forall>node \<in> set nodes. (r, c) \<noteq> (RowIndex flow node, ColIndex flow node)
           \<or> ReceiverVector flow node = node \<or> flow_dx pw m flow node = - 99"
  shows "zeta' r c = zeta r c"
  using assms
proof (induction nodes arbitrary: zeta)
  case Nil
  then show ?case by simp
next
  case (Cons node nodes)
  from Cons.prems(1) obtain z1 where z1: "fluvial_node pw K flow m node zeta = Some z1"
    and rest: "fluvial_loop pw K flow m nodes z1 = Some zeta'"
    by (auto split: option.splits)
  have "z1 r c = zeta r c" using z1 Cons.prems(2) by (intro fluvial_node_other_cell) auto
  moreover have "zeta' r c = z1 r c" using rest Cons.prems(2) by (intro Cons.IH) auto
  ultimately show ?case by simp
qed

lemma fluvial_loop_nonlinear:
  assumes "\<not> slope_exponent_is_one m" and "fluvial_loop pw K flow m nodes zeta = Some zeta'"
  shows "zeta' = zeta"
  using assms
  by (induction nodes arbitrary: zeta) (auto split: option.splits dest: fluvial_node_nonlinear)

lemma fluvial_loop_append:
  "fluvial_loop pw K flow m (xs @ ys) zeta =
     (case fluvial_loop pw K flow m xs zeta of
        None \<Rightarrow> None | Some z1 \<Rightarrow> fluvial_loop pw K flow m ys z1)"
  by (induction xs arbitrary: zeta) (auto split: option.splits)

lemma fluvial_loop_linear_total:
  assumes "slope_exponent_is_one m"
  shows "\<exists>zeta'. fluvial_loop pw K flow m nodes zeta = Some zeta'"
  using assms by (induction nodes arbitrary: zeta) (simp_all add: fluvial_node_linear)

lemma fluvial_loop_K_zero:
  assumes "slope_exponent_is_one m"
  shows "fluvial_loop pw 0 flow m nodes zeta = Some zeta"
  using assms by (induction nodes arbitrary: zeta) (simp_all add: fluvial_node_linear)

text \<open>
  C7. With slope exponent one and erodibility \<open>K = 0\<close>, one step of fluvial incision
  returns the model unchanged: every cell of the elevation field keeps its value.
\<close>

theorem fluvial_incision_K_zero:
  assumes "slope_exponent_is_one m"
  shows "fluvial_incision pw 0 flow m = Some m"
  using assms by (simp add: fluvial_incision_def fluvial_loop_K_zero)

text \<open>
  C1. With slope exponent one, the step visits the nodes in the order of the flow
  network, which lists every receiver before its donors, and one pass over that order
  ends the step: the step returns, and every node that is not its own receiver and has a
  defined distance to its receiver ends with the elevation
  \<open>(z_old + z_receiver_new * F) / (1 + F)\<close>, where \<open>z_receiver_new\<close> is the receiver's
  elevation after the step and \<open>F = K * A^m * dt / dx\<close>.
\<close>

theorem fluvial_incision_linear:
  assumes n1: "slope_exponent_is_one m"
    and cells: "one_cell_per_node flow"
    and order: "receivers_first flow"
  shows "\<exists>m'. fluvial_incision pw K flow m = Some m'
           \<and> (\<forall>node \<in> set (SVector flow).
                 ReceiverVector flow node \<noteq> node \<longrightarrow> flow_dx pw m flow node \<noteq> - 99 \<longrightarrow>
                 RasterData m' (RowIndex flow node) (ColIndex flow node)
                   = (RasterData m (RowIndex flow node) (ColIndex flow node)
                      + RasterData m' (RowIndex flow (ReceiverVector flow node))
                                      (ColIndex flow (ReceiverVector flow node))
                        * stream_power_factor pw K flow m node)
                     / (1 + stream_power_factor pw K flow m node))"
proof -
  let ?sv = "SVector flow"
  let ?cell = "\<lambda>node. (RowIndex flow node, ColIndex flow node)"
  from fluvial_loop_linear_total [OF n1] obtain zf
    where zf: "fluvial_loop pw K flow m ?sv (RasterData m) = Some zf" by blast
  have dist: "distinct ?sv"
    and inj: "inj_on ?cell (set ?sv \<union> ReceiverVector flow ` set ?sv)"
    using cells by (simp_all add: one_cell_per_node_def)
  have "RasterData (m\<lparr>RasterData := zf\<rparr>) (RowIndex flow node) (ColIndex flow node)
          = (RasterData m (RowIndex flow node) (ColIndex flow node)
             + RasterData (m\<lparr>RasterData := zf\<rparr>) (RowIndex flow (ReceiverVector flow node))
                                      (ColIndex flow (ReceiverVector flow node))
               * stream_power_factor pw K flow m node)
            / (1 + stream_power_factor pw K flow m node)"
    if node: "node \<in> set ?sv" and rcv: "ReceiverVector flow node \<noteq> node"
      and dx: "flow_dx pw m flow node \<noteq> - 99" for node
  proof -
    let ?r = "ReceiverVector flow node"
    from node obtain k where k: "k < length ?sv" "?sv ! k = node"
      by (auto simp add: in_set_conv_nth)
    define pre where "pre = take k ?sv"
    define post where "post = drop (Suc k) ?sv"
    have split: "?sv = pre @ node # post"
      using id_take_nth_drop [OF k(1)] k(2) by (simp add: pre_def post_def)
    have r_pre: "?r \<in> set pre"
      using order k rcv by (auto simp add: receivers_first_def pre_def)
    have node_pre: "node \<notin> set pre" and node_post: "node \<notin> set post"
      and r_post: "?r \<notin> set post"
      using dist r_pre unfolding split by auto
    have in_dom: "set pre \<union> set post \<union> {node, ?r} \<subseteq> set ?sv \<union> ReceiverVector flow ` set ?sv"
      using node unfolding split by auto
    have cell_neq: "?cell a \<noteq> ?cell b"
      if "a \<in> set pre \<union> set post \<union> {node, ?r}" "b \<in> set pre \<union> set post \<union> {node, ?r}" "a \<noteq> b"
      for a b
      using that in_dom inj by (meson inj_on_def subsetD)
    from zf obtain z1 z2 where z1: "fluvial_loop pw K flow m pre (RasterData m) = Some z1"
      and z2: "fluvial_node pw K flow m node z1 = Some z2"
      and z3: "fluvial_loop pw K flow m post z2 = Some zf"
      unfolding split by (auto simp add: fluvial_loop_append split: option.splits)
    have a: "z1 (RowIndex flow node) (ColIndex flow node)
               = RasterData m (RowIndex flow node) (ColIndex flow node)"
      using z1 node_pre cell_neq by (intro fluvial_loop_other_cell [OF z1]) auto
    have z2_eq: "z2 = put2 z1 (RowIndex flow node) (ColIndex flow node)
                   ((z1 (RowIndex flow node) (ColIndex flow node)
                     + z1 (RowIndex flow ?r) (ColIndex flow ?r) * stream_power_factor pw K flow m node)
                    / (1 + stream_power_factor pw K flow m node))"
      using z2 rcv dx by (simp add: fluvial_node_linear [OF n1] stream_power_factor_def)
    have b: "z2 (RowIndex flow ?r) (ColIndex flow ?r) = z1 (RowIndex flow ?r) (ColIndex flow ?r)"
      using cell_neq [of ?r node] rcv by (simp add: z2_eq)
    have c: "zf (RowIndex flow node) (ColIndex flow node) = z2 (RowIndex flow node) (ColIndex flow node)"
      using node_post cell_neq by (intro fluvial_loop_other_cell [OF z3]) auto
    have d: "zf (RowIndex flow ?r) (ColIndex flow ?r) = z2 (RowIndex flow ?r) (ColIndex flow ?r)"
      using r_post cell_neq by (intro fluvial_loop_other_cell [OF z3]) auto
    have e: "z2 (RowIndex flow node) (ColIndex flow node)
               = (z1 (RowIndex flow node) (ColIndex flow node)
                  + z1 (RowIndex flow ?r) (ColIndex flow ?r) * stream_power_factor pw K flow m node)
                 / (1 + stream_power_factor pw K flow m node)"
      by (simp add: z2_eq)
    have "zf (RowIndex flow node) (ColIndex flow node)
            = (RasterData m (RowIndex flow node) (ColIndex flow node)
               + zf (RowIndex flow ?r) (ColIndex flow ?r) * stream_power_factor pw K flow m node)
              / (1 + stream_power_factor pw K flow m node)"
      unfolding c e a d b ..
    then show ?thesis by simp
  qed
  then show ?thesis
    using zf by (simp add: fluvial_incision_def)
qed

lemma column_flow_fields:
  "SVector column_flow = [0, 1, 2]"
  "RowIndex column_flow node = node"
  "ColIndex column_flow node = 0"
  "ReceiverVector column_flow node = (if node = 0 then 0 else node - 1)"
  "NContributingNodes column_flow node = 3 - node"
  "FlowLengthCode column_flow node = (if node = 0 then 0 else 1)"
  by (simp_all add: column_flow_def)

lemma column_model_fields:
  "RasterData column_model i j = real_of_int i"
  "DataResolution column_model = 1"
  "timeStep column_model = 1"
  "SPL_m column_model = 1"
  "SPL_n column_model = 1"
  by (simp_all add: column_model_def small_default_model_def)

lemma column_flow_cells: "one_cell_per_node column_flow"
  by (simp add: one_cell_per_node_def column_flow_fields inj_on_def)

lemma column_flow_order: "receivers_first column_flow"
  by (simp add: receivers_first_def column_flow_def less_Suc_eq numeral_3_eq_3 nth_Cons')

lemma column_model_linear: "slope_exponent_is_one column_model"
  by (simp add: slope_exponent_is_one_def column_model_def small_default_model_def)

theorem fluvial_incision_K_zero_witness:
  "slope_exponent_is_one column_model
   \<and> fluvial_incision (powr) 0 column_flow column_model = Some column_model"
  using fluvial_incision_K_zero [of column_model "(powr)" column_flow] column_model_linear
  by simp

theorem fluvial_incision_linear_witness:
  "slope_exponent_is_one column_model \<and> one_cell_per_node column_flow
   \<and> receivers_first column_flow
   \<and> (\<exists>m'. fluvial_incision (powr) (1/2) column_flow column_model = Some m'
         \<and> RasterData m' 0 0 = 0 \<and> RasterData m' 1 0 = (1 + RasterData m' 0 0 * 1) / (1 + 1)
         \<and> RasterData m' 2 0 = (2 + RasterData m' 1 0 * (1/2)) / (1 + 1/2))"
proof -
  from fluvial_incision_linear [OF column_model_linear column_flow_cells column_flow_order,
      of "(powr)" "1/2"]
  obtain m' where m': "fluvial_incision (powr) (1/2) column_flow column_model = Some m'"
    and eq: "\<forall>node \<in> set (SVector column_flow).
                 ReceiverVector column_flow node \<noteq> node \<longrightarrow>
                 flow_dx (powr) column_model column_flow node \<noteq> - 99 \<longrightarrow>
                 RasterData m' (RowIndex column_flow node) (ColIndex column_flow node)
                   = (RasterData column_model (RowIndex column_flow node) (ColIndex column_flow node)
                      + RasterData m' (RowIndex column_flow (ReceiverVector column_flow node))
                                      (ColIndex column_flow (ReceiverVector column_flow node))
                        * stream_power_factor (powr) (1/2) column_flow column_model node)
                     / (1 + stream_power_factor (powr) (1/2) column_flow column_model node)"
    by blast
  have spf1: "stream_power_factor (powr) (1/2) column_flow column_model 1 = 1"
    by (simp add: stream_power_factor_def column_flow_fields column_model_fields
          drainageArea_def flow_dx_def)
  have spf2: "stream_power_factor (powr) (1/2) column_flow column_model 2 = 1/2"
    by (simp add: stream_power_factor_def column_flow_fields column_model_fields
          drainageArea_def flow_dx_def)
  have dx: "flow_dx (powr) column_model column_flow 1 = 1" "flow_dx (powr) column_model column_flow 2 = 1"
    by (simp_all add: column_flow_fields column_model_fields flow_dx_def)
  have z0: "RasterData m' 0 0 = 0"
  proof -
    from m' obtain zf where zf: "fluvial_loop (powr) (1/2) column_flow column_model
                                   (SVector column_flow) (RasterData column_model) = Some zf"
      and "m' = column_model\<lparr>RasterData := zf\<rparr>"
      by (auto simp add: fluvial_incision_def split: option.splits)
    moreover have "zf 0 0 = RasterData column_model 0 0"
      by (rule fluvial_loop_other_cell [OF zf])
         (simp add: column_flow_fields flow_dx_def)
    ultimately show ?thesis by (simp add: column_model_fields)
  qed
  have z1: "RasterData m' 1 0 = (1 + RasterData m' 0 0 * 1) / (1 + 1)"
    using eq [rule_format, of 1] spf1 dx
    by (simp add: column_flow_fields column_model_fields)
  have z2: "RasterData m' 2 0 = (2 + RasterData m' 1 0 * (1/2)) / (1 + 1/2)"
    using eq [rule_format, of 2] spf2 dx
    by (simp add: column_flow_fields column_model_fields)
  show ?thesis
    using column_model_linear column_flow_cells column_flow_order m' z0 z1 z2 by blast
qed

section \<open>The branch for a slope exponent other than one\<close>


lemma newton_loop_continue:
  assumes "newton_epsilon pw spf n dx zr old new > 0.001"
  shows "newton_loop pw spf n dx zr old new
           = newton_loop pw spf n dx zr old (new - newton_epsilon pw spf n dx zr old new)"
  by (subst newton_loop.simps) (simp only: assms if_True abs_one one_neq_zero simp_thms)

lemma newton_loop_stop:
  assumes "\<not> newton_epsilon pw spf n dx zr old new > 0.001"
  shows "newton_loop pw spf n dx zr old new
           = Some (new - newton_epsilon pw spf n dx zr old new)"
  by (subst newton_loop.simps) (simp only: assms if_False abs_zero simp_thms)

lemma powr_two_one:
  fixes s :: real
  assumes "0 < s"
  shows "s powr 2 = s\<^sup>2" and "s powr (2 - 1) = s"
  using assms by simp_all

lemma newton_epsilon_quadratic:
  assumes "0 < (new - zr) / dx"
  shows "newton_epsilon (powr) spf 2 dx zr old new
           = (new - old + spf * ((new - zr) / dx)\<^sup>2) / (1 + spf * (2 / dx) * ((new - zr) / dx))"
proof -
  have p2: "((new - zr) / dx) powr 2 = ((new - zr) / dx)\<^sup>2"
    by (rule powr_two_one(1) [OF assms])
  have p1: "((new - zr) / dx) powr (2 - 1) = (new - zr) / dx"
    by (rule powr_two_one(2) [OF assms])
  show ?thesis
    by (simp only: newton_epsilon_def Let_def p2 p1)
qed

lemma eps_1_a: "newton_epsilon (powr) 1 2 1 0 1 1 = 1/3"
  by (simp add: newton_epsilon_quadratic)
lemma eps_1_b: "newton_epsilon (powr) 1 2 1 0 1 (2/3) = 1/21"
  by (simp add: newton_epsilon_quadratic power2_eq_square)
lemma eps_1_c: "newton_epsilon (powr) 1 2 1 0 1 (13/21) = 1/987"
  by (simp add: newton_epsilon_quadratic power2_eq_square)
lemma eps_1_d: "newton_epsilon (powr) 1 2 1 0 1 (610/987) = 1/2178309"
  by (simp add: newton_epsilon_quadratic power2_eq_square)

lemma newton_node_1: "newton_loop (powr) 1 2 1 0 1 1 = Some (1346269 / 2178309)"
proof -
  have "newton_loop (powr) 1 2 1 0 1 1 = newton_loop (powr) 1 2 1 0 1 (2/3)"
    by (subst newton_loop_continue) (simp_all add: eps_1_a)
  also have "\<dots> = newton_loop (powr) 1 2 1 0 1 (13/21)"
    by (subst newton_loop_continue) (simp_all add: eps_1_b)
  also have "\<dots> = newton_loop (powr) 1 2 1 0 1 (610/987)"
    by (subst newton_loop_continue) (simp_all add: eps_1_c)
  also have "\<dots> = Some (1346269 / 2178309)"
    by (subst newton_loop_stop) (simp_all add: eps_1_d)
  finally show ?thesis .
qed


lemma eps_2_a: "newton_epsilon (powr) (1/2) 2 1 1 2 2 = 1/4"
  by (simp add: newton_epsilon_quadratic power2_eq_square)
lemma eps_2_b: "newton_epsilon (powr) (1/2) 2 1 1 2 (7/4) = 1/56"
  by (simp add: newton_epsilon_quadratic power2_eq_square)
lemma eps_2_c: "newton_epsilon (powr) (1/2) 2 1 1 2 (97/56) = 1/10864"
  by (simp add: newton_epsilon_quadratic power2_eq_square)

lemma newton_node_2: "newton_loop (powr) (1/2) 2 1 1 2 2 = Some (18817 / 10864)"
proof -
  have "newton_loop (powr) (1/2) 2 1 1 2 2 = newton_loop (powr) (1/2) 2 1 1 2 (7/4)"
    by (subst newton_loop_continue) (simp_all add: eps_2_a)
  also have "\<dots> = newton_loop (powr) (1/2) 2 1 1 2 (97/56)"
    by (subst newton_loop_continue) (simp_all add: eps_2_b)
  also have "\<dots> = Some (18817 / 10864)"
    by (subst newton_loop_stop) (simp_all add: eps_2_c)
  finally show ?thesis .
qed

lemma quadratic_model_fields:
  "RasterData quadratic_model i j = real_of_int i"
  "DataResolution quadratic_model = 1"
  "timeStep quadratic_model = 1"
  "SPL_m quadratic_model = 1"
  "SPL_n quadratic_model = 2"
  by (simp_all add: quadratic_model_def column_model_def small_default_model_def)

lemma quadratic_model_nonlinear: "\<not> slope_exponent_is_one quadratic_model"
  by (simp add: slope_exponent_is_one_def quadratic_model_fields)

lemma quadratic_node_0:
  "fluvial_node (powr) (1/2) column_flow quadratic_model 0 (RasterData quadratic_model)
     = Some (RasterData quadratic_model)"
  by (simp add: fluvial_node_def Let_def flow_dx_def column_flow_fields quadratic_model_nonlinear)

lemma quadratic_node_1:
  "fluvial_node (powr) (1/2) column_flow quadratic_model 1 (RasterData quadratic_model)
     = Some (RasterData quadratic_model)"
  by (simp add: fluvial_node_def Let_def flow_dx_def drainageArea_def column_flow_fields
        quadratic_model_fields quadratic_model_nonlinear newton_node_1)

lemma quadratic_node_2:
  "fluvial_node (powr) (1/2) column_flow quadratic_model 2 (RasterData quadratic_model)
     = Some (RasterData quadratic_model)"
  by (simp add: fluvial_node_def Let_def flow_dx_def drainageArea_def column_flow_fields
        quadratic_model_fields quadratic_model_nonlinear newton_node_2)

text \<open>
  C3 fails on the code. On the column grid with \<open>n = 2\<close>, node \<open>1\<close> is not a base-level
  node and has a defined distance to its receiver; the iteration for it ends with
  \<open>1346269 / 2178309\<close>, and the elevation of its cell after the step is still \<open>1\<close>: the
  step returns the model it was given.
\<close>

theorem fluvial_incision_discards_newton:
  "\<not> slope_exponent_is_one quadratic_model
   \<and> ReceiverVector column_flow 1 \<noteq> 1
   \<and> flow_dx (powr) quadratic_model column_flow 1 \<noteq> - 99
   \<and> newton_loop (powr) 1 2 1 0 1 1 = Some (1346269 / 2178309)
   \<and> fluvial_incision (powr) (1/2) column_flow quadratic_model = Some quadratic_model
   \<and> RasterData quadratic_model 1 0 = 1"
proof -
  have "fluvial_incision (powr) (1/2) column_flow quadratic_model = Some quadratic_model"
    by (simp add: fluvial_incision_def column_flow_fields(1)
          quadratic_node_0 quadratic_node_1 quadratic_node_2)
  moreover have "flow_dx (powr) quadratic_model column_flow 1 \<noteq> - 99"
    by (simp add: flow_dx_def column_flow_fields quadratic_model_fields)
  ultimately show ?thesis
    using quadratic_model_nonlinear newton_node_1
    by (simp add: column_flow_fields quadratic_model_fields)
qed

section \<open>The Newton iteration on single-precision variables\<close>

lemma newton_epsilon_float_id:
  "newton_epsilon_float (\<lambda>x. x) pw spf n dx zr old new = newton_epsilon pw spf n dx zr old new"
  by (simp add: newton_epsilon_float_def newton_epsilon_def)

lemma newton_loop_float_id_unfold:
  "newton_loop_float (\<lambda>x. x) pw spf n dx zr old new =
     (if newton_epsilon pw spf n dx zr old new > 0.001
      then newton_loop_float (\<lambda>x. x) pw spf n dx zr old (new - newton_epsilon pw spf n dx zr old new)
      else Some (new - newton_epsilon pw spf n dx zr old new))"
  by (subst newton_loop_float.simps) (simp add: newton_epsilon_float_id)

lemma newton_loop_float_id_sound:
  assumes "newton_loop_float st pw spf n dx zr old new = Some v"
  shows "st = (\<lambda>x. x) \<longrightarrow> newton_loop pw spf n dx zr old new = Some v"
proof (rule newton_loop_float.raw_induct
    [where P = "\<lambda>st pw spf n dx zr old new v.
                  st = (\<lambda>x. x) \<longrightarrow> newton_loop pw spf n dx zr old new = Some v",
     OF _ assms])
  fix f :: "(real \<Rightarrow> real) \<Rightarrow> (real \<Rightarrow> real \<Rightarrow> real) \<Rightarrow> real \<Rightarrow> real \<Rightarrow> real \<Rightarrow> real \<Rightarrow> real \<Rightarrow> real \<Rightarrow> real option"
  fix st pw spf n dx zr old new v
  assume IH: "\<And>st pw spf n dx zr old new v. f st pw spf n dx zr old new = Some v \<Longrightarrow>
                st = (\<lambda>x. x) \<longrightarrow> newton_loop pw spf n dx zr old new = Some v"
    and body: "(if \<bar>if 1 / 10 ^ 3 < newton_epsilon_float st pw spf n dx zr old new then 1 else (0::int)\<bar> \<noteq> 0
                then f st pw spf n dx zr old (st (new - newton_epsilon_float st pw spf n dx zr old new))
                else Some (st (new - newton_epsilon_float st pw spf n dx zr old new))) = Some v"
  show "st = (\<lambda>x. x) \<longrightarrow> newton_loop pw spf n dx zr old new = Some v"
  proof
    assume st: "st = (\<lambda>x. x)"
    show "newton_loop pw spf n dx zr old new = Some v"
    proof (cases "newton_epsilon pw spf n dx zr old new > 0.001")
      case True
      with body st
      have "f st pw spf n dx zr old (new - newton_epsilon pw spf n dx zr old new) = Some v"
        by (simp add: newton_epsilon_float_id)
      from IH [OF this] st
      have "newton_loop pw spf n dx zr old (new - newton_epsilon pw spf n dx zr old new) = Some v"
        by blast
      then show ?thesis by (simp only: newton_loop_continue [OF True])
    next
      case False
      with body st have "v = new - newton_epsilon pw spf n dx zr old new"
        by (simp add: newton_epsilon_float_id)
      then show ?thesis by (simp only: newton_loop_stop [OF False])
    qed
  qed
qed

lemma newton_loop_float_id_complete:
  assumes "newton_loop pw spf n dx zr old new = Some v"
  shows "newton_loop_float (\<lambda>x. x) pw spf n dx zr old new = Some v"
proof (rule newton_loop.raw_induct
    [where P = "\<lambda>pw spf n dx zr old new v.
                  newton_loop_float (\<lambda>x. x) pw spf n dx zr old new = Some v",
     OF _ assms])
  fix f :: "(real \<Rightarrow> real \<Rightarrow> real) \<Rightarrow> real \<Rightarrow> real \<Rightarrow> real \<Rightarrow> real \<Rightarrow> real \<Rightarrow> real \<Rightarrow> real option"
  fix pw spf n dx zr old new v
  assume IH: "\<And>pw spf n dx zr old new v. f pw spf n dx zr old new = Some v \<Longrightarrow>
                newton_loop_float (\<lambda>x. x) pw spf n dx zr old new = Some v"
    and body: "(if \<bar>if 1 / 10 ^ 3 < newton_epsilon pw spf n dx zr old new then 1 else (0::int)\<bar> \<noteq> 0
                then f pw spf n dx zr old (new - newton_epsilon pw spf n dx zr old new)
                else Some (new - newton_epsilon pw spf n dx zr old new)) = Some v"
  show "newton_loop_float (\<lambda>x. x) pw spf n dx zr old new = Some v"
  proof (cases "newton_epsilon pw spf n dx zr old new > 0.001")
    case True
    with body have "f pw spf n dx zr old (new - newton_epsilon pw spf n dx zr old new) = Some v"
      by simp
    from IH [OF this] True show ?thesis
      by (subst newton_loop_float_id_unfold) simp
  next
    case False
    with body have "v = new - newton_epsilon pw spf n dx zr old new" by simp
    with False show ?thesis
      by (subst newton_loop_float_id_unfold) simp
  qed
qed

lemma newton_loop_float_id:
  "newton_loop_float (\<lambda>x. x) pw spf n dx zr old new = newton_loop pw spf n dx zr old new"
proof (cases "newton_loop pw spf n dx zr old new")
  case (Some v)
  then show ?thesis by (simp add: newton_loop_float_id_complete)
next
  case None
  show ?thesis
  proof (cases "newton_loop_float (\<lambda>x. x) pw spf n dx zr old new")
    case None
    with \<open>newton_loop pw spf n dx zr old new = None\<close> show ?thesis by simp
  next
    case (Some v)
    from newton_loop_float_id_sound [OF this] None show ?thesis by simp
  qed
qed

lemma float_exponent_eq:
  assumes "0 < x" and "2 powr real_of_int k \<le> x" and "x < 2 powr real_of_int (k + 1)"
    and "- 126 \<le> k"
  shows "float_exponent x = k"
proof -
  have "\<lfloor>log 2 x\<rfloor> = k"
    using assms by (subst floor_log_eq_powr_iff) simp_all
  with assms show ?thesis by (simp add: float_exponent_def)
qed

lemma to_float_one: "to_float 1 = 1"
proof -
  have e: "float_exponent 1 = 0"
    by (rule float_exponent_eq) simp_all
  show ?thesis
    by (simp add: to_float_def e pow2_def round_half_even_def)
qed

lemma to_float_258: "to_float (1 / 258) = 2080895 / 536870912"
proof -
  have e: "float_exponent (1 / 258) = - 9"
    by (rule float_exponent_eq) (simp_all add: powr_neg_numeral)
  show ?thesis
    by (simp add: to_float_def e pow2_def round_half_even_def)
qed

lemma round_half_even_up:
  assumes "\<lfloor>y\<rfloor> = f" and "y - real_of_int f > 1 / 2"
  shows "round_half_even y = f + 1"
  using assms by (simp add: round_half_even_def)

lemma to_float_absorbs:
  assumes "0 < e" and "e < 1 / 128"
  shows "to_float (131073 - e) = 131073"
proof -
  define y where "y = (131073 - e) / pow2 (17 - 23)"
  have y: "y = 8388672 - 64 * e"
    by (simp add: y_def pow2_def algebra_simps)
  have ex: "float_exponent (131073 - e) = 17"
    using assms by (intro float_exponent_eq) simp_all
  have fl: "\<lfloor>y\<rfloor> = 8388671"
    unfolding y using assms by (intro floor_unique) simp_all
  have "round_half_even y = 8388671 + 1"
    using fl by (rule round_half_even_up) (use assms in \<open>simp add: y\<close>)
  then have r: "round_half_even y = 8388672" by simp
  have nz: "131073 - e \<noteq> 0" using assms by simp
  have "to_float (131073 - e) = real_of_int (round_half_even y) * pow2 (17 - 23)"
    unfolding y_def by (simp only: to_float_def ex nz if_False)
  also have "\<dots> = 131073" by (simp add: r pow2_def)
  finally show ?thesis .
qed

lemma stall_epsilon:
  "newton_epsilon_float to_float (powr) (1/256) 2 1 131072 131073 131073 = 2080895 / 536870912"
proof -
  have "newton_epsilon_float to_float (powr) (1/256) 2 1 131072 131073 131073
          = to_float ((131073 - 131073 + (1/256) * to_float 1 powr 2)
                      / (1 + (1/256) * (2 / 1) * to_float 1 powr (2 - 1)))"
    by (simp add: newton_epsilon_float_def Let_def)
  also have "\<dots> = to_float (1 / 258)"
    by (simp add: to_float_one)
  finally show ?thesis by (simp only: to_float_258)
qed

lemma newton_loop_float_never_from:
  assumes eps: "newton_epsilon_float store pw spf n dx zr old x > 0.001"
    and same: "store (x - newton_epsilon_float store pw spf n dx zr old x) = x"
    and ret: "newton_loop_float store pw spf n dx zr old x = Some v"
  shows False
proof -
  have "\<not> (st = store \<and> p = pw \<and> s = spf \<and> k = n \<and> d = dx \<and> z = zr \<and> ol = old \<and> nw = x)"
    if "newton_loop_float st p s k d z ol nw = Some w" for st p s k d z ol nw w
  proof (rule newton_loop_float.raw_induct
      [where P = "\<lambda>st p s k d z ol nw w.
            \<not> (st = store \<and> p = pw \<and> s = spf \<and> k = n \<and> d = dx \<and> z = zr \<and> ol = old \<and> nw = x)",
       OF _ that])
    fix f :: "(real \<Rightarrow> real) \<Rightarrow> (real \<Rightarrow> real \<Rightarrow> real) \<Rightarrow> real \<Rightarrow> real \<Rightarrow> real \<Rightarrow> real \<Rightarrow> real \<Rightarrow> real \<Rightarrow> real option"
    fix st p s k d z ol nw w
    assume IH: "\<And>st p s k d z ol nw w. f st p s k d z ol nw = Some w \<Longrightarrow>
                  \<not> (st = store \<and> p = pw \<and> s = spf \<and> k = n \<and> d = dx \<and> z = zr \<and> ol = old \<and> nw = x)"
      and body: "(if \<bar>if 1 / 10 ^ 3 < newton_epsilon_float st p s k d z ol nw then 1 else (0::int)\<bar> \<noteq> 0
                  then f st p s k d z ol (st (nw - newton_epsilon_float st p s k d z ol nw))
                  else Some (st (nw - newton_epsilon_float st p s k d z ol nw))) = Some w"
    show "\<not> (st = store \<and> p = pw \<and> s = spf \<and> k = n \<and> d = dx \<and> z = zr \<and> ol = old \<and> nw = x)"
    proof
      assume a: "st = store \<and> p = pw \<and> s = spf \<and> k = n \<and> d = dx \<and> z = zr \<and> ol = old \<and> nw = x"
      with body eps same have "f store pw spf n dx zr old x = Some w" by simp
      from IH [OF this] show False by simp
    qed
  qed
  from this [OF ret] show False by simp
qed

text \<open>
  C9 fails on the code. A cell at elevation \<open>131073\<close> above a receiver at \<open>131072\<close>, with
  \<open>n = 2\<close>, unit distance and stream power factor \<open>1/256\<close>: every pass computes a correction
  above \<open>0.001\<close>, the subtraction leaves the stored elevation as it was, and the loop does
  not return. The loop has no counter and no warning.
\<close>

theorem newton_loop_float_stalls:
  "newton_epsilon_float to_float (powr) (1/256) 2 1 131072 131073 131073 > 0.001
   \<and> to_float (131073 - newton_epsilon_float to_float (powr) (1/256) 2 1 131072 131073 131073)
       = 131073
   \<and> newton_loop_float to_float (powr) (1/256) 2 1 131072 131073 131073 = None"
proof -
  have eps: "newton_epsilon_float to_float (powr) (1/256) 2 1 131072 131073 131073 > 0.001"
    by (simp add: stall_epsilon)
  have same: "to_float (131073 - newton_epsilon_float to_float (powr) (1/256) 2 1 131072 131073 131073)
                = 131073"
    unfolding stall_epsilon by (rule to_float_absorbs) simp_all
  have "newton_loop_float to_float (powr) (1/256) 2 1 131072 131073 131073 = None"
  proof (cases "newton_loop_float to_float (powr) (1/256) 2 1 131072 131073 131073")
    case None
    then show ?thesis .
  next
    case (Some v)
    from newton_loop_float_never_from [OF eps same Some] show ?thesis ..
  qed
  with eps same show ?thesis by (intro conjI)
qed

section \<open>Base-level cells\<close>



























section \<open>The linear system on a grid with fixed edges on both axes\<close>















section \<open>The adaptive-timestep creep solver: properties\<close>

lemma DAVE_nonlinear_creep_timestep_restores:
  assumes "DAVE_nonlinear_creep_timestep solve D_nl tol terms m = Some m'"
  shows "timeStep m' = timeStep m"
  using assms by (auto simp add: DAVE_nonlinear_creep_timestep_def Let_def split: option.splits)

lemma DAVE_wrapper_restores:
  assumes "DAVE_wrapper solve D_nl m = Some m'"
  shows "timeStep m' = timeStep m"
  using assms DAVE_nonlinear_creep_timestep_restores by (simp add: DAVE_wrapper_def Let_def)

lemma DAVE_slow_down_timeStep: "timeStep (DAVE_slow_down m) = timeStep m / 10"
  by (simp add: DAVE_slow_down_def Let_def)

lemma DAVE_slow_down_smaller:
  "0 < timeStep m \<Longrightarrow> timeStep (DAVE_slow_down m) < timeStep m"
  by (simp add: DAVE_slow_down_timeStep)

lemma small_default_model_fields:
  "NRows small_default_model = 3" "NCols small_default_model = 3"
  "RasterData small_default_model = (\<lambda>i j. 0)"
  "timeStep small_default_model = 100"
  "DataResolution small_default_model = 1"
  "S_c small_default_model = 30"
  by (simp_all add: small_default_model_def)

lemma still_residual:
  "DAVE_max_residual
     ((DAVE_snapshot small_default_model)
        \<lparr>zeta_this_iter := still_solver (DAVE_snapshot small_default_model) terms\<rparr>) = 0"
  by (simp add: DAVE_max_residual_def for_cells_def Let_def DAVE_snapshot_def still_solver_def
        small_default_model_fields upto.simps)

lemma still_inner_loop:
  "DAVE_inner_loop still_solver terms 0.00001 (DAVE_snapshot small_default_model) (0.00001 + 1) 0
     = ((DAVE_snapshot small_default_model)
          \<lparr>zeta_this_iter := RasterData small_default_model,
           zeta_last_iter := RasterData small_default_model\<rparr>, 0, 1)"
proof -
  let ?m1 = "(DAVE_snapshot small_default_model)
               \<lparr>zeta_this_iter := still_solver (DAVE_snapshot small_default_model) terms\<rparr>"
  have it: "DAVE_iteration still_solver terms (DAVE_snapshot small_default_model)
              = (?m1\<lparr>zeta_last_iter := zeta_this_iter ?m1\<rparr>, 0)"
    by (simp only: DAVE_iteration_def Let_def still_residual)
  have "DAVE_inner_loop still_solver terms 0.00001 (DAVE_snapshot small_default_model) (0.00001 + 1) 0
          = DAVE_inner_loop still_solver terms 0.00001 (?m1\<lparr>zeta_last_iter := zeta_this_iter ?m1\<rparr>) 0 1"
    by (subst DAVE_inner_loop.simps) (simp add: it)
  also have "\<dots> = (?m1\<lparr>zeta_last_iter := zeta_this_iter ?m1\<rparr>, 0, 1)"
    by (subst DAVE_inner_loop.simps) simp
  also have "?m1\<lparr>zeta_last_iter := zeta_this_iter ?m1\<rparr>
               = (DAVE_snapshot small_default_model)
                   \<lparr>zeta_this_iter := RasterData small_default_model,
                    zeta_last_iter := RasterData small_default_model\<rparr>"
    by (simp add: still_solver_def DAVE_snapshot_def)
  finally show ?thesis .
qed

lemma DAVE_iteration_keeps:
  "RasterData (fst (DAVE_iteration solve terms m)) = RasterData m
   \<and> timeStep (fst (DAVE_iteration solve terms m)) = timeStep m"
  by (simp add: DAVE_iteration_def Let_def)

lemma DAVE_inner_loop_keeps:
  "RasterData (fst (DAVE_inner_loop solve terms tol m r n)) = RasterData m
   \<and> timeStep (fst (DAVE_inner_loop solve terms tol m r n)) = timeStep m"
proof (induction solve terms tol m r n rule: DAVE_inner_loop.induct)
  case (1 solve terms tol m r n)
  show ?case
  proof (cases "r > tol \<and> n \<le> 10")
    case True
    then show ?thesis
      using "1.IH" DAVE_iteration_keeps [of solve terms m]
      by (subst (1 2) DAVE_inner_loop.simps) simp
  next
    case False
    then show ?thesis by (subst (1 2) DAVE_inner_loop.simps) auto
  qed
qed

lemma DAVE_outer_loop_retry:
  assumes "DAVE_inner_loop solve terms tol (DAVE_snapshot m) r 0 = (m1, r1, n)" and "10 \<le> n"
  shows "DAVE_outer_loop solve D_nl tol terms m r
           = DAVE_outer_loop solve D_nl tol
               (DAVE_initiate_assembler_matrix D_nl (DAVE_slow_down m1)) (DAVE_slow_down m1) r1"
    and "RasterData (DAVE_slow_down m1) = RasterData m"
    and "timeStep (DAVE_slow_down m1) = timeStep m / 10"
proof -
  show "DAVE_outer_loop solve D_nl tol terms m r
           = DAVE_outer_loop solve D_nl tol
               (DAVE_initiate_assembler_matrix D_nl (DAVE_slow_down m1)) (DAVE_slow_down m1) r1"
    using assms by (subst DAVE_outer_loop.simps) simp
  have "RasterData m1 = RasterData (DAVE_snapshot m) \<and> timeStep m1 = timeStep (DAVE_snapshot m)"
    using DAVE_inner_loop_keeps [of solve terms tol "DAVE_snapshot m" r 0] assms(1) by simp
  then show "RasterData (DAVE_slow_down m1) = RasterData m"
    and "timeStep (DAVE_slow_down m1) = timeStep m / 10"
    by (simp_all add: DAVE_slow_down_def DAVE_snapshot_def Let_def)
qed

text \<open>
  C2 fails on the code. On the flat default grid the inner solve converges in exactly one
  pass (the inner loop ends with \<^verbatim>\<open>n_iterations = 1\<close>), the branch that doubles the time
  step is taken, and the call returns with the time step it was entered with: the next
  call assembles its system from the same time step and the same front terms. The retry
  after a failed solve does use a tenth of the time step, from the elevations of the
  start of the call (the three facts above).
\<close>

theorem DAVE_wrapper_keeps_timeStep:
  "snd (snd (DAVE_inner_loop still_solver (DAVE_initiate_assembler_matrix 0.02 small_default_model)
               0.00001 (DAVE_snapshot small_default_model) (0.00001 + 1) 0)) = 1
   \<and> (\<exists>m'. DAVE_wrapper still_solver 0.02 small_default_model = Some m'
          \<and> timeStep m' = timeStep small_default_model
          \<and> DAVE_initiate_assembler_matrix 0.02 m'
              = DAVE_initiate_assembler_matrix 0.02 small_default_model)"
proof -
  let ?terms = "DAVE_initiate_assembler_matrix 0.02 small_default_model"
  have outer: "DAVE_outer_loop still_solver 0.02 0.00001 ?terms small_default_model (0.00001 + 1)
          = Some (DAVE_speed_up ((DAVE_snapshot small_default_model)
                    \<lparr>zeta_this_iter := RasterData small_default_model,
                     zeta_last_iter := RasterData small_default_model\<rparr>))"
    by (subst DAVE_outer_loop.simps) (simp only: still_inner_loop prod.case simp_thms if_True)
  let ?m' = "(DAVE_speed_up ((DAVE_snapshot small_default_model)
                    \<lparr>zeta_this_iter := RasterData small_default_model,
                     zeta_last_iter := RasterData small_default_model\<rparr>))
               \<lparr>RasterData := zeta_this_iter (DAVE_speed_up ((DAVE_snapshot small_default_model)
                    \<lparr>zeta_this_iter := RasterData small_default_model,
                     zeta_last_iter := RasterData small_default_model\<rparr>)),
                timeStep := timeStep small_default_model\<rparr>"
  have w: "DAVE_wrapper still_solver 0.02 small_default_model = Some ?m'"
    by (simp only: DAVE_wrapper_def DAVE_nonlinear_creep_timestep_def Let_def outer option.case)
  have t: "timeStep ?m' = timeStep small_default_model"
    by simp
  have a: "DAVE_initiate_assembler_matrix 0.02 ?m' = ?terms"
    by (simp add: DAVE_initiate_assembler_matrix_def DAVE_speed_up_def DAVE_snapshot_def)
  from w t a
  have "\<exists>m'. DAVE_wrapper still_solver 0.02 small_default_model = Some m'
          \<and> timeStep m' = timeStep small_default_model
          \<and> DAVE_initiate_assembler_matrix 0.02 m' = ?terms"
    by blast
  moreover have "snd (snd (DAVE_inner_loop still_solver ?terms 0.00001
                             (DAVE_snapshot small_default_model) (0.00001 + 1) 0)) = 1"
    by (simp only: still_inner_loop snd_conv)
  ultimately show ?thesis by blast
qed

end
